theory Spec2Isabelle
  imports Main
begin

section \<open>Python values, exceptions and effects\<close>

text \<open>
  The Supabase tools of \<^verbatim>\<open>aden_tools/tools/supabase_tool/supabase_tool.py\<close> take and
  return plain Python data. A dictionary is an association list in insertion order
  (the order \<^verbatim>\<open>.items()\<close> iterates in); a well-formed dictionary has distinct keys.
\<close>

datatype pyval =
    PNone
  | PBool bool
  | PInt int
  | PStr string
  | PList "pyval list"
  | PDict "(string \<times> pyval) list"

type_synonym pydict = "(string \<times> pyval) list"

text \<open>
  Exceptions are the subclasses of \<^verbatim>\<open>Exception\<close>; each carries the text that
  \<^verbatim>\<open>str(e)\<close> yields. The code tells \<^verbatim>\<open>KeyError\<close> apart from the rest.
\<close>

datatype exn =
    KeyError string
  | ValueError string
  | AttributeError string
  | TypeError string
  | SdkError string

fun str_exn :: "exn \<Rightarrow> string" where
  "str_exn (KeyError m) = m"
| "str_exn (ValueError m) = m"
| "str_exn (AttributeError m) = m"
| "str_exn (TypeError m) = m"
| "str_exn (SdkError m) = m"

fun is_KeyError :: "exn \<Rightarrow> bool" where
  "is_KeyError (KeyError m) = True"
| "is_KeyError e = False"

text \<open>The \<^verbatim>\<open>payload\<close> argument: one record or a sequence of records.\<close>

datatype payload = Record pydict | Records "pydict list"

text \<open>
  What a run does to the outside world, in order: the calls into the backend SDK and the
  calls of \<^verbatim>\<open>logger.exception\<close>.
\<close>

datatype event =
    CreateClient string string
  | TableCall string
  | SelectCall string
  | InsertCall payload
  | UpdateCall payload
  | DeleteCall
  | EqCall string pyval
  | ExecuteCall
  | ListUsersCall
  | ListBucketsCall
  | LogException string

text \<open>A run yields the events it performed and either the exception raised or a value.\<close>

type_synonym 'a run = "event list \<times> (exn + 'a)"

definition ret :: "'a \<Rightarrow> 'a run" where
  "ret x = ([], Inr x)"

definition raise :: "exn \<Rightarrow> 'a run" where
  "raise e = ([], Inl e)"

definition call :: "event \<Rightarrow> exn + 'a \<Rightarrow> 'a run" where
  "call ev r = ([ev], r)"

definition bind_run :: "'a run \<Rightarrow> ('a \<Rightarrow> 'b run) \<Rightarrow> 'b run" where
  "bind_run m f =
     (case m of
        (t, Inl e) \<Rightarrow> (t, Inl e)
      | (t, Inr x) \<Rightarrow> (case f x of (t', r) \<Rightarrow> (t @ t', r)))"

definition try_except :: "'a run \<Rightarrow> (exn \<Rightarrow> 'a run) \<Rightarrow> 'a run" where
  "try_except m h =
     (case m of
        (t, Inl e) \<Rightarrow> (case h e of (t', r) \<Rightarrow> (t @ t', r))
      | (t, Inr x) \<Rightarrow> (t, Inr x))"

section \<open>The collaborators the tools are given\<close>

text \<open>
  An object of the SDK is its class name and its attributes; reading a missing attribute
  raises \<^verbatim>\<open>AttributeError\<close>, \<^verbatim>\<open>getattr(o, name, None)\<close> yields \<^verbatim>\<open>None\<close>.
\<close>

record pyobj =
  obj_class :: string
  obj_attrs :: pydict

definition getattr :: "pyobj \<Rightarrow> string \<Rightarrow> exn + pyval" where
  "getattr obj name =
     (case map_of (obj_attrs obj) name of
        None \<Rightarrow>
          Inl (AttributeError
                 ([CHR 0x27] @ obj_class obj @ [CHR 0x27] @ '' object has no attribute ''
                    @ [CHR 0x27] @ name @ [CHR 0x27]))
      | Some v \<Rightarrow> Inr v)"

definition getattr_default :: "pyobj \<Rightarrow> string \<Rightarrow> pyval" where
  "getattr_default obj name =
     (case map_of (obj_attrs obj) name of None \<Rightarrow> PNone | Some v \<Rightarrow> v)"

text \<open>
  The response of \<^verbatim>\<open>client.auth.admin.list_users()\<close>: \<open>resp_users\<close> is \<open>None\<close> when the
  object has no \<^verbatim>\<open>users\<close> attribute.
\<close>

record user_response =
  resp_users :: "pyobj list option"

text \<open>
  The backend SDK (the \<^verbatim>\<open>supabase\<close> package) is not part of the repository: it is a
  parameter. Every call may raise. \<open>'c\<close> is the client handle, \<open>'b\<close> the table builder,
  \<open>'q\<close> the request under construction; \<open>sdk_execute\<close> yields \<^verbatim>\<open>result.data\<close>.
\<close>

record ('c, 'b, 'q) sdk =
  sdk_create_client :: "string \<Rightarrow> string \<Rightarrow> exn + 'c"
  sdk_table :: "'c \<Rightarrow> string \<Rightarrow> exn + 'b"
  sdk_select :: "'b \<Rightarrow> string \<Rightarrow> exn + 'q"
  sdk_insert :: "'b \<Rightarrow> payload \<Rightarrow> exn + 'q"
  sdk_update :: "'b \<Rightarrow> payload \<Rightarrow> exn + 'q"
  sdk_delete :: "'b \<Rightarrow> exn + 'q"
  sdk_eq :: "'q \<Rightarrow> string \<Rightarrow> pyval \<Rightarrow> exn + 'q"
  sdk_execute :: "'q \<Rightarrow> exn + pyval list"
  sdk_list_users :: "'c \<Rightarrow> exn + user_response"
  sdk_list_buckets :: "'c \<Rightarrow> exn + pyobj list"

text \<open>
  \<^verbatim>\<open>credentials.get(name)\<close> of the injected credential store raises or returns
  \<^verbatim>\<open>str | None\<close>; \<^verbatim>\<open>os.getenv(name)\<close> returns \<^verbatim>\<open>str | None\<close>.
\<close>

type_synonym credential_store = "string \<Rightarrow> exn + string option"

type_synonym environ = "string \<Rightarrow> string option"

section \<open>The client resolver\<close>

text \<open>Python's \<^verbatim>\<open>not s\<close> for \<^verbatim>\<open>s: str | None\<close>.\<close>

fun not_str :: "string option \<Rightarrow> bool" where
  "not_str None = True"
| "not_str (Some s) = (s = [])"

text \<open>
  Lines 16 to 22 of \<^verbatim>\<open>_get_supabase_client\<close>: both lookups sit in one \<^verbatim>\<open>try\<close>, whose
  handler catches \<^verbatim>\<open>KeyError\<close> only. The URL is assigned before the key is looked up.
\<close>

definition lookup_store ::
  "credential_store option \<Rightarrow> exn + (string option \<times> string option)" where
  "lookup_store credentials =
     (case credentials of
        None \<Rightarrow> Inr (None, None)
      | Some get \<Rightarrow>
          (case get ''SUPABASE_URL'' of
             Inl e \<Rightarrow> if is_KeyError e then Inr (None, None) else Inl e
           | Inr url \<Rightarrow>
               (case get ''SUPABASE_SERVICE_ROLE_KEY'' of
                  Inl e \<Rightarrow> if is_KeyError e then Inr (url, None) else Inl e
                | Inr key \<Rightarrow> Inr (url, key))))"

text \<open>Lines 16 to 27: the pair after the fall-back to the environment.\<close>

definition credential_pair ::
  "credential_store option \<Rightarrow> environ \<Rightarrow> exn + (string option \<times> string option)" where
  "credential_pair credentials env =
     (case lookup_store credentials of
        Inl e \<Rightarrow> Inl e
      | Inr (url, key) \<Rightarrow>
          Inr (if not_str url then env ''SUPABASE_URL'' else url,
               if not_str key then env ''SUPABASE_SERVICE_ROLE_KEY'' else key))"

definition missing_credentials :: string where
  "missing_credentials =
     ''SUPABASE_URL and SUPABASE_SERVICE_ROLE_KEY are required to use the Supabase tool''"

definition get_supabase_client ::
  "('c, 'b, 'q) sdk \<Rightarrow> credential_store option \<Rightarrow> environ \<Rightarrow> 'c run" where
  "get_supabase_client sdk credentials env =
     (case credential_pair credentials env of
        Inl e \<Rightarrow> raise e
      | Inr (url, key) \<Rightarrow>
          (case (url, key) of
             (Some u, Some k) \<Rightarrow>
               if u = [] \<or> k = [] then raise (ValueError missing_credentials)
               else call (CreateClient u k) (sdk_create_client sdk u k)
           | _ \<Rightarrow> raise (ValueError missing_credentials)))"

section \<open>The query tool\<close>

text \<open>Python's \<^verbatim>\<open>not payload\<close> on a payload that is not \<^verbatim>\<open>None\<close>.\<close>

fun empty_payload :: "payload \<Rightarrow> bool" where
  "empty_payload (Record d) = (d = [])"
| "empty_payload (Records ds) = (ds = [])"

text \<open>Python's \<^verbatim>\<open>not payload\<close> and \<^verbatim>\<open>not query_filter\<close> on the optional arguments.\<close>

fun not_payload :: "payload option \<Rightarrow> bool" where
  "not_payload None = True"
| "not_payload (Some p) = empty_payload p"

fun not_filter :: "pydict option \<Rightarrow> bool" where
  "not_filter None = True"
| "not_filter (Some f) = (f = [])"

text \<open>The loop \<^verbatim>\<open>for k, v in query_filter.items(): req = req.eq(k, v)\<close>.\<close>

fun apply_filter :: "('c, 'b, 'q) sdk \<Rightarrow> 'q \<Rightarrow> pydict \<Rightarrow> 'q run" where
  "apply_filter sdk req [] = ret req"
| "apply_filter sdk req ((k, v) # kvs) =
     bind_run (call (EqCall k v) (sdk_eq sdk req k v)) (\<lambda>req'. apply_filter sdk req' kvs)"

definition error_dict :: "string \<Rightarrow> pydict" where
  "error_dict msg = [(''error'', PStr msg)]"

text \<open>Lines 63 to 103: what the \<^verbatim>\<open>try\<close> block of \<^verbatim>\<open>supabase_db_query\<close> guards.\<close>

definition db_query_body ::
  "('c, 'b, 'q) sdk \<Rightarrow> credential_store option \<Rightarrow> environ \<Rightarrow>
     string \<Rightarrow> string \<Rightarrow> pydict option \<Rightarrow> payload option \<Rightarrow> pydict run" where
  "db_query_body sdk credentials env table action query_filter payload =
     bind_run (get_supabase_client sdk credentials env) (\<lambda>client.
     bind_run (call (TableCall table) (sdk_table sdk client table)) (\<lambda>builder.
       if action = ''select'' then
         bind_run (call (SelectCall ''*'') (sdk_select sdk builder ''*'')) (\<lambda>req.
         bind_run
           (case query_filter of
              None \<Rightarrow> ret req
            | Some f \<Rightarrow> if f = [] then ret req else apply_filter sdk req f) (\<lambda>req.
         bind_run (call ExecuteCall (sdk_execute sdk req)) (\<lambda>data.
         ret [(''success'', PBool True), (''data'', PList data),
              (''count'', PInt (int (length data)))])))
       else if action = ''insert'' then
         (case payload of
            None \<Rightarrow> ret (error_dict ''payload is required for insert action'')
          | Some p \<Rightarrow>
              if empty_payload p then ret (error_dict ''payload is required for insert action'')
              else
                bind_run (call (InsertCall p) (sdk_insert sdk builder p)) (\<lambda>req.
                bind_run (call ExecuteCall (sdk_execute sdk req)) (\<lambda>data.
                ret [(''success'', PBool True), (''data'', PList data)])))
       else if action = ''update'' then
         (case payload of
            None \<Rightarrow> ret (error_dict ''payload is required for update action'')
          | Some p \<Rightarrow>
              if empty_payload p then ret (error_dict ''payload is required for update action'')
              else
                (case query_filter of
                   None \<Rightarrow> ret (error_dict ''query_filter is required for update action'')
                 | Some f \<Rightarrow>
                     if f = [] then
                       ret (error_dict ''query_filter is required for update action'')
                     else
                       bind_run (call (UpdateCall p) (sdk_update sdk builder p)) (\<lambda>req.
                       bind_run (apply_filter sdk req f) (\<lambda>req.
                       bind_run (call ExecuteCall (sdk_execute sdk req)) (\<lambda>data.
                       ret [(''success'', PBool True), (''data'', PList data)])))))
       else if action = ''delete'' then
         (case query_filter of
            None \<Rightarrow> ret (error_dict ''query_filter is required for delete action'')
          | Some f \<Rightarrow>
              if f = [] then ret (error_dict ''query_filter is required for delete action'')
              else
                bind_run (call DeleteCall (sdk_delete sdk builder)) (\<lambda>req.
                bind_run (apply_filter sdk req f) (\<lambda>req.
                bind_run (call ExecuteCall (sdk_execute sdk req)) (\<lambda>data.
                ret [(''success'', PBool True), (''data'', PList data)]))))
       else
         ret (error_dict
                (''Unknown action: '' @ action
                   @ ''. Use select, insert, update, or delete.''))))"

text \<open>
  The handler of each tool: \<^verbatim>\<open>logger.exception(log_msg)\<close>, then the error dictionary
  \<^verbatim>\<open>{"error": f"<prefix>{e}"}\<close>.
\<close>

definition on_exception :: "string \<Rightarrow> string \<Rightarrow> exn \<Rightarrow> pydict run" where
  "on_exception log_msg prefix e =
     bind_run (call (LogException log_msg) (Inr ())) (\<lambda>_.
     ret (error_dict (prefix @ str_exn e)))"

definition supabase_db_query ::
  "('c, 'b, 'q) sdk \<Rightarrow> credential_store option \<Rightarrow> environ \<Rightarrow>
     string \<Rightarrow> string \<Rightarrow> pydict option \<Rightarrow> payload option \<Rightarrow> pydict run" where
  "supabase_db_query sdk credentials env table action query_filter payload =
     try_except (db_query_body sdk credentials env table action query_filter payload)
       (on_exception ''Supabase DB Query failed'' ''Failed to execute DB query: '')"

section \<open>The listing tools\<close>

text \<open>The dictionary built for one user: \<^verbatim>\<open>u.id\<close> is read directly, the rest with a default.\<close>

definition project_user :: "pyobj \<Rightarrow> exn + pydict" where
  "project_user u =
     (case getattr u ''id'' of
        Inl e \<Rightarrow> Inl e
      | Inr i \<Rightarrow>
          Inr [(''id'', i),
               (''email'', getattr_default u ''email''),
               (''created_at'', getattr_default u ''created_at''),
               (''last_sign_in_at'', getattr_default u ''last_sign_in_at'')])"

text \<open>The loop \<^verbatim>\<open>for u in result.users: users_list.append(...)\<close>, from a given list.\<close>

fun project_users :: "pydict list \<Rightarrow> pyobj list \<Rightarrow> exn + pydict list" where
  "project_users users_list [] = Inr users_list"
| "project_users users_list (u # us) =
     (case project_user u of
        Inl e \<Rightarrow> Inl e
      | Inr d \<Rightarrow> project_users (users_list @ [d]) us)"

definition list_result :: "pydict list \<Rightarrow> pydict" where
  "list_result ds =
     [(''success'', PBool True), (''data'', PList (map PDict ds)),
      (''count'', PInt (int (length ds)))]"

definition auth_list_users_body ::
  "('c, 'b, 'q) sdk \<Rightarrow> credential_store option \<Rightarrow> environ \<Rightarrow> pydict run" where
  "auth_list_users_body sdk credentials env =
     bind_run (get_supabase_client sdk credentials env) (\<lambda>client.
     bind_run (call ListUsersCall (sdk_list_users sdk client)) (\<lambda>result.
     bind_run
       (case resp_users result of
          None \<Rightarrow> ret []
        | Some us \<Rightarrow> ([], project_users [] us)) (\<lambda>users_list.
     ret (list_result users_list))))"

definition supabase_auth_list_users ::
  "('c, 'b, 'q) sdk \<Rightarrow> credential_store option \<Rightarrow> environ \<Rightarrow> pydict run" where
  "supabase_auth_list_users sdk credentials env =
     try_except (auth_list_users_body sdk credentials env)
       (on_exception ''Supabase Auth List Users failed'' ''Failed to list auth users: '')"

definition project_bucket :: "pyobj \<Rightarrow> pydict" where
  "project_bucket b =
     [(''id'', getattr_default b ''id''),
      (''name'', getattr_default b ''name''),
      (''public'', getattr_default b ''public''),
      (''created_at'', getattr_default b ''created_at'')]"

fun project_buckets :: "pydict list \<Rightarrow> pyobj list \<Rightarrow> pydict list" where
  "project_buckets bucket_list [] = bucket_list"
| "project_buckets bucket_list (b # bs) =
     project_buckets (bucket_list @ [project_bucket b]) bs"

definition storage_list_buckets_body ::
  "('c, 'b, 'q) sdk \<Rightarrow> credential_store option \<Rightarrow> environ \<Rightarrow> pydict run" where
  "storage_list_buckets_body sdk credentials env =
     bind_run (get_supabase_client sdk credentials env) (\<lambda>client.
     bind_run (call ListBucketsCall (sdk_list_buckets sdk client)) (\<lambda>buckets.
     ret (list_result (project_buckets [] buckets))))"

definition supabase_storage_list_buckets ::
  "('c, 'b, 'q) sdk \<Rightarrow> credential_store option \<Rightarrow> environ \<Rightarrow> pydict run" where
  "supabase_storage_list_buckets sdk credentials env =
     try_except (storage_list_buckets_body sdk credentials env)
       (on_exception ''Supabase Storage List Buckets failed''
          ''Failed to list storage buckets: '')"

section \<open>The two shapes of a result\<close>

text \<open>
  The spec's two result shapes, in its words: a success-shaped dictionary has
  \<^verbatim>\<open>success: true\<close> and \<^verbatim>\<open>data\<close> and no \<^verbatim>\<open>error\<close> key; an error-shaped one has an
  \<^verbatim>\<open>error\<close> key and neither \<^verbatim>\<open>success\<close> nor \<^verbatim>\<open>data\<close>.
\<close>

definition success_shaped :: "pydict \<Rightarrow> bool" where
  "success_shaped d =
     (map_of d ''success'' = Some (PBool True) \<and> map_of d ''data'' \<noteq> None
        \<and> map_of d ''error'' = None)"

definition error_shaped :: "pydict \<Rightarrow> bool" where
  "error_shaped d =
     (map_of d ''error'' \<noteq> None \<and> map_of d ''success'' = None \<and> map_of d ''data'' = None)"

section \<open>A concrete backend, store and environment\<close>

text \<open>
  A small backend to run the tools on: one table \<^verbatim>\<open>users\<close> with one row, one auth
  user and one bucket, as in the repository's tests; executing a request on any other
  table raises.
\<close>

definition demo_user :: pyobj where
  "demo_user =
     \<lparr>obj_class = ''User'',
      obj_attrs = [(''id'', PStr ''user-123''), (''email'', PStr ''test@example.com'')]\<rparr>"

definition demo_bucket :: pyobj where
  "demo_bucket =
     \<lparr>obj_class = ''Bucket'',
      obj_attrs = [(''id'', PStr ''bucket-1''), (''name'', PStr ''Public Assets'')]\<rparr>"

definition demo_rows :: "pyval list" where
  "demo_rows = [PDict [(''id'', PInt 1), (''name'', PStr ''Test'')]]"

definition demo_sdk :: "(string \<times> string, string, string) sdk" where
  "demo_sdk =
     \<lparr>sdk_create_client = (\<lambda>url key. Inr (url, key)),
      sdk_table = (\<lambda>client table. Inr table),
      sdk_select = (\<lambda>builder columns. Inr builder),
      sdk_insert = (\<lambda>builder p. Inr builder),
      sdk_update = (\<lambda>builder p. Inr builder),
      sdk_delete = (\<lambda>builder. Inr builder),
      sdk_eq = (\<lambda>req k v. Inr req),
      sdk_execute =
        (\<lambda>req. if req = ''users'' then Inr demo_rows
               else Inl (SdkError ''relation does not exist'')),
      sdk_list_users = (\<lambda>client. Inr \<lparr>resp_users = Some [demo_user]\<rparr>),
      sdk_list_buckets = (\<lambda>client. Inr [demo_bucket])\<rparr>"

text \<open>The same backend, whose identity subsystem answers with an object without \<^verbatim>\<open>users\<close>.\<close>

definition sdk_without_users :: "(string \<times> string, string, string) sdk" where
  "sdk_without_users = demo_sdk\<lparr>sdk_list_users := (\<lambda>client. Inr \<lparr>resp_users = None\<rparr>)\<rparr>"

text \<open>The same backend, whose second user has an e-mail address and no \<^verbatim>\<open>id\<close>.\<close>

definition user_without_id :: pyobj where
  "user_without_id =
     \<lparr>obj_class = ''User'', obj_attrs = [(''email'', PStr ''anon@example.com'')]\<rparr>"

definition sdk_user_without_id :: "(string \<times> string, string, string) sdk" where
  "sdk_user_without_id =
     demo_sdk\<lparr>sdk_list_users :=
       (\<lambda>client. Inr \<lparr>resp_users = Some [demo_user, user_without_id]\<rparr>)\<rparr>"

text \<open>The same backend, whose identity and storage subsystems refuse the call.\<close>

definition sdk_forbidden :: "(string \<times> string, string, string) sdk" where
  "sdk_forbidden =
     demo_sdk\<lparr>sdk_list_users := (\<lambda>client. Inl (SdkError ''not authorized'')),
              sdk_list_buckets := (\<lambda>client. Inl (SdkError ''not authorized''))\<rparr>"

definition no_env :: environ where
  "no_env = (\<lambda>name. None)"

definition demo_env :: environ where
  "demo_env =
     map_of [(''SUPABASE_URL'', ''https://env.supabase.co''),
             (''SUPABASE_SERVICE_ROLE_KEY'', ''env-key'')]"

text \<open>An environment with the URL only, and one with the key only.\<close>

definition url_only_env :: environ where
  "url_only_env = map_of [(''SUPABASE_URL'', ''https://env.supabase.co'')]"

definition key_only_env :: environ where
  "key_only_env = map_of [(''SUPABASE_SERVICE_ROLE_KEY'', ''env-key'')]"

text \<open>The same backend, whose second bucket has a name and no \<^verbatim>\<open>id\<close>.\<close>

definition bucket_without_id :: pyobj where
  "bucket_without_id =
     \<lparr>obj_class = ''Bucket'', obj_attrs = [(''name'', PStr ''Private Assets'')]\<rparr>"

definition sdk_bucket_without_id :: "(string \<times> string, string, string) sdk" where
  "sdk_bucket_without_id =
     demo_sdk\<lparr>sdk_list_buckets := (\<lambda>client. Inr [demo_bucket, bucket_without_id])\<rparr>"

text \<open>
  A store that holds both values, one that holds the key and not the URL, and one that
  holds the URL and not the key.
\<close>

definition full_store :: credential_store where
  "full_store name =
     (if name = ''SUPABASE_URL'' then Inr (Some ''https://store.supabase.co'')
      else if name = ''SUPABASE_SERVICE_ROLE_KEY'' then Inr (Some ''store-key'')
      else Inl (KeyError name))"

definition store_without_url :: credential_store where
  "store_without_url name =
     (if name = ''SUPABASE_SERVICE_ROLE_KEY'' then Inr (Some ''store-key'')
      else Inl (KeyError name))"

definition store_without_key :: credential_store where
  "store_without_key name =
     (if name = ''SUPABASE_URL'' then Inr (Some ''https://store.supabase.co'')
      else Inl (KeyError name))"

section \<open>Running the effects\<close>

lemma bind_run_Inl [simp]: "bind_run (t, Inl e) f = (t, Inl e)"
  by (simp add: bind_run_def)

lemma bind_run_Inr [simp]: "bind_run (t, Inr x) f = (t @ fst (f x), snd (f x))"
  by (simp add: bind_run_def split: prod.splits)

lemma bind_run_ret [simp]: "bind_run (ret x) f = f x"
  by (simp add: ret_def)

lemma bind_run_raise [simp]: "bind_run (raise e) f = raise e"
  by (simp add: raise_def)

lemma bind_run_call_Inl [simp]: "bind_run (call ev (Inl e)) f = ([ev], Inl e)"
  by (simp add: call_def)

lemma bind_run_call_Inr [simp]: "bind_run (call ev (Inr x)) f = (ev # fst (f x), snd (f x))"
  by (simp add: call_def)

lemma try_except_Inl [simp]: "try_except (t, Inl e) h = (t @ fst (h e), snd (h e))"
  by (simp add: try_except_def split: prod.splits)

lemma try_except_Inr [simp]: "try_except (t, Inr x) h = (t, Inr x)"
  by (simp add: try_except_def)

lemma on_exception_eq [simp]:
  "on_exception log_msg prefix e =
     ([LogException log_msg], Inr (error_dict (prefix @ str_exn e)))"
  by (simp add: on_exception_def ret_def)

section \<open>The concrete backend at work\<close>

lemma demo_client:
  "get_supabase_client demo_sdk None demo_env =
     ([CreateClient ''https://env.supabase.co'' ''env-key''],
      Inr (''https://env.supabase.co'', ''env-key''))"
  by (simp add: get_supabase_client_def credential_pair_def lookup_store_def demo_env_def
      demo_sdk_def call_def)

lemma demo_table: "sdk_table demo_sdk client table = Inr table"
  by (simp add: demo_sdk_def)

lemma demo_sdk_simps:
  "sdk_create_client demo_sdk url key = Inr (url, key)"
  "sdk_select demo_sdk builder columns = Inr builder"
  "sdk_insert demo_sdk builder p = Inr builder"
  "sdk_update demo_sdk builder p = Inr builder"
  "sdk_delete demo_sdk builder = Inr builder"
  "sdk_eq demo_sdk req k v = Inr req"
  "sdk_execute demo_sdk req =
     (if req = ''users'' then Inr demo_rows else Inl (SdkError ''relation does not exist''))"
  "sdk_list_users demo_sdk client = Inr \<lparr>resp_users = Some [demo_user]\<rparr>"
  "sdk_list_buckets demo_sdk client = Inr [demo_bucket]"
  by (simp_all add: demo_sdk_def)

lemma forbidden_client:
  "get_supabase_client sdk_forbidden None demo_env =
     ([CreateClient ''https://env.supabase.co'' ''env-key''],
      Inr (''https://env.supabase.co'', ''env-key''))"
  by (simp add: get_supabase_client_def credential_pair_def lookup_store_def demo_env_def
      demo_sdk_def sdk_forbidden_def call_def)

lemma forbidden_users_raises:
  "auth_list_users_body sdk_forbidden None demo_env =
     ([CreateClient ''https://env.supabase.co'' ''env-key'', ListUsersCall],
      Inl (SdkError ''not authorized''))"
  by (simp add: auth_list_users_body_def forbidden_client)
    (simp add: sdk_forbidden_def demo_sdk_def)

lemma credential_pair_no_env: "credential_pair None no_env = Inr (None, None)"
  by (simp add: credential_pair_def lookup_store_def no_env_def)

lemma without_users_client:
  "get_supabase_client sdk_without_users None demo_env =
     ([CreateClient ''https://env.supabase.co'' ''env-key''],
      Inr (''https://env.supabase.co'', ''env-key''))"
  by (simp add: get_supabase_client_def credential_pair_def lookup_store_def demo_env_def
      demo_sdk_def sdk_without_users_def call_def)

lemma without_users_response:
  "sdk_list_users sdk_without_users client = Inr \<lparr>resp_users = None\<rparr>"
  by (simp add: sdk_without_users_def)

section \<open>Credential failures\<close>

lemma get_supabase_client_missing:
  assumes "credential_pair credentials env = Inr (url, key)" and "not_str url \<or> not_str key"
  shows "get_supabase_client sdk credentials env = ([], Inl (ValueError missing_credentials))"
proof (cases url)
  case None
  with assms(1) show ?thesis by (simp add: get_supabase_client_def raise_def)
next
  case u: (Some u)
  show ?thesis
  proof (cases key)
    case None
    with assms(1) u show ?thesis by (simp add: get_supabase_client_def raise_def)
  next
    case (Some k)
    with assms u show ?thesis by (auto simp add: get_supabase_client_def raise_def)
  qed
qed

lemma get_supabase_client_events:
  "fst (get_supabase_client sdk credentials env) = [] \<or>
   (\<exists>u k. fst (get_supabase_client sdk credentials env) = [CreateClient u k])"
  by (simp add: get_supabase_client_def raise_def call_def
      split: sum.splits prod.splits option.splits)

text \<open>
  C1, as the code has it. \<^verbatim>\<open>_get_supabase_client\<close> is called inside the \<^verbatim>\<open>try\<close> block of
  each tool (lines 63, 119 and 147), so the \<^verbatim>\<open>ValueError\<close> it raises when the URL or the
  key is still empty or absent after the fall-back to the environment is caught like any
  other exception: each of the three tools logs it and returns its error dictionary, whose
  message is the tool's prefix followed by the resolver's message. No SDK call is made.
\<close>

theorem missing_credentials_become_error_dicts:
  assumes "credential_pair credentials env = Inr (url, key)" and "not_str url \<or> not_str key"
  shows "supabase_db_query sdk credentials env table action query_filter payload =
           ([LogException ''Supabase DB Query failed''],
            Inr [(''error'', PStr (''Failed to execute DB query: '' @ missing_credentials))])
       \<and> supabase_auth_list_users sdk credentials env =
           ([LogException ''Supabase Auth List Users failed''],
            Inr [(''error'', PStr (''Failed to list auth users: '' @ missing_credentials))])
       \<and> supabase_storage_list_buckets sdk credentials env =
           ([LogException ''Supabase Storage List Buckets failed''],
            Inr [(''error'', PStr (''Failed to list storage buckets: '' @ missing_credentials))])"
  using get_supabase_client_missing [OF assms, of sdk]
  by (simp add: supabase_db_query_def db_query_body_def supabase_auth_list_users_def
      auth_list_users_body_def supabase_storage_list_buckets_def storage_list_buckets_body_def
      error_dict_def)

theorem missing_credentials_become_error_dicts_witness:
  "supabase_db_query demo_sdk None no_env ''users'' ''select'' None None =
           ([LogException ''Supabase DB Query failed''],
            Inr [(''error'', PStr (''Failed to execute DB query: '' @ missing_credentials))])
       \<and> supabase_auth_list_users demo_sdk None no_env =
           ([LogException ''Supabase Auth List Users failed''],
            Inr [(''error'', PStr (''Failed to list auth users: '' @ missing_credentials))])
       \<and> supabase_storage_list_buckets demo_sdk None no_env =
           ([LogException ''Supabase Storage List Buckets failed''],
            Inr [(''error'', PStr (''Failed to list storage buckets: '' @ missing_credentials))])"
  using missing_credentials_become_error_dicts [OF credential_pair_no_env, of demo_sdk
      "''users''" "''select''" None None]
  by simp

text \<open>
  C1 as stated fails: with no credential store and an empty environment the query tool
  returns an error dictionary; the \<^verbatim>\<open>ValueError\<close> does not reach the caller.
\<close>

theorem missing_credentials_not_raised:
  "snd (supabase_db_query demo_sdk None no_env ''users'' ''select'' None None) =
     Inr [(''error'',
           PStr (''Failed to execute DB query: SUPABASE_URL and SUPABASE_SERVICE_ROLE_KEY ''
                   @ ''are required to use the Supabase tool''))]
   \<and> snd (supabase_db_query demo_sdk None no_env ''users'' ''select'' None None) \<noteq>
     Inl (ValueError (''SUPABASE_URL and SUPABASE_SERVICE_ROLE_KEY ''
                        @ ''are required to use the Supabase tool''))"
  by (simp add: supabase_db_query_def db_query_body_def get_supabase_client_def
      credential_pair_def lookup_store_def no_env_def raise_def error_dict_def
      missing_credentials_def)

section \<open>Exceptions of the backend\<close>



section \<open>Validation in the query tool\<close>

lemma get_supabase_client_Inr:
  assumes "get_supabase_client sdk credentials env = (t0, Inr client)"
  shows "\<exists>u k. t0 = [CreateClient u k] \<and> credential_pair credentials env = Inr (Some u, Some k)
           \<and> u \<noteq> [] \<and> k \<noteq> [] \<and> sdk_create_client sdk u k = Inr client"
  using assms
  by (auto simp add: get_supabase_client_def raise_def call_def
      split: sum.splits prod.splits option.splits if_splits)

lemma execute_not_in_client: "ExecuteCall \<notin> set (fst (get_supabase_client sdk credentials env))"
  using get_supabase_client_events [of sdk credentials env] by auto

lemma eq_not_in_client: "EqCall k v \<notin> set (fst (get_supabase_client sdk credentials env))"
  using get_supabase_client_events [of sdk credentials env] by auto

lemma unknown_action_events:
  assumes "action \<noteq> ''select''" "action \<noteq> ''insert''" "action \<noteq> ''update''" "action \<noteq> ''delete''"
  shows "ExecuteCall \<notin> set (fst (supabase_db_query sdk credentials env table action query_filter payload))"
proof (cases "get_supabase_client sdk credentials env")
  case (Pair t0 r)
  have t0: "ExecuteCall \<notin> set t0"
    using execute_not_in_client [of sdk credentials env] Pair by simp
  show ?thesis
  proof (cases r)
    case (Inl e)
    with Pair t0 show ?thesis
      by (simp add: supabase_db_query_def db_query_body_def)
  next
    case (Inr client)
    with Pair t0 assms show ?thesis
      by (cases "sdk_table sdk client table")
        (simp_all add: supabase_db_query_def db_query_body_def ret_def)
  qed
qed

text \<open>
  C3. For every action outside select, insert, update and delete: once the client handle
  and the table builder are there (\<^verbatim>\<open>_get_supabase_client\<close> and \<^verbatim>\<open>client.table\<close> returned,
  lines 63 and 64), the tool returns exactly the dictionary
  \<^verbatim>\<open>{"error": "Unknown action: <action>. Use select, insert, update, or delete."}\<close>, and
  the only events are the construction of the client and of the builder. Whatever the
  credentials and the SDK do, the tool raises nothing and sends no request
  (no \<^verbatim>\<open>execute\<close>).
\<close>

theorem unknown_action_is_rejected:
  assumes "action \<notin> {''select'', ''insert'', ''update'', ''delete''}"
  shows "(get_supabase_client sdk credentials env = (t0, Inr client) \<and>
          sdk_table sdk client table = Inr builder \<longrightarrow>
            supabase_db_query sdk credentials env table action query_filter payload =
              (t0 @ [TableCall table],
               Inr [(''error'',
                     PStr (''Unknown action: '' @ action
                             @ ''. Use select, insert, update, or delete.''))]))
       \<and> snd (supabase_db_query sdk credentials env table action query_filter payload) \<noteq> Inl e
       \<and> ExecuteCall \<notin>
           set (fst (supabase_db_query sdk credentials env table action query_filter payload))"
proof (intro conjI impI)
  assume "get_supabase_client sdk credentials env = (t0, Inr client) \<and>
          sdk_table sdk client table = Inr builder"
  with assms show "supabase_db_query sdk credentials env table action query_filter payload =
              (t0 @ [TableCall table],
               Inr [(''error'',
                     PStr (''Unknown action: '' @ action
                             @ ''. Use select, insert, update, or delete.''))])"
    by (simp add: supabase_db_query_def db_query_body_def ret_def error_dict_def)
next
  show "snd (supabase_db_query sdk credentials env table action query_filter payload) \<noteq> Inl e"
    by (simp add: supabase_db_query_def try_except_def split: prod.splits sum.splits)
next
  from assms show "ExecuteCall \<notin>
           set (fst (supabase_db_query sdk credentials env table action query_filter payload))"
    by (intro unknown_action_events) simp_all
qed

theorem unknown_action_is_rejected_witness:
  "supabase_db_query demo_sdk None demo_env ''users'' ''upsert'' None None =
     ([CreateClient ''https://env.supabase.co'' ''env-key'', TableCall ''users''],
      Inr [(''error'', PStr ''Unknown action: upsert. Use select, insert, update, or delete.'')])"
  using unknown_action_is_rejected [of "''upsert''" demo_sdk None demo_env
      "[CreateClient ''https://env.supabase.co'' ''env-key'']"
      "(''https://env.supabase.co'', ''env-key'')" "''users''" "''users''" None None]
    demo_client demo_table
  by simp

lemma validation_events:
  assumes "action = ''insert'' \<and> not_payload payload
         \<or> action = ''update'' \<and> (not_payload payload \<or> not_filter query_filter)
         \<or> action = ''delete'' \<and> not_filter query_filter"
  shows "ExecuteCall \<notin> set (fst (supabase_db_query sdk credentials env table action query_filter payload))"
proof (cases "get_supabase_client sdk credentials env")
  case (Pair t0 r)
  have t0: "ExecuteCall \<notin> set t0"
    using execute_not_in_client [of sdk credentials env] Pair by simp
  show ?thesis
  proof (cases r)
    case (Inl e)
    with Pair t0 show ?thesis
      by (simp add: supabase_db_query_def db_query_body_def)
  next
    case (Inr client)
    show ?thesis
    proof (cases "sdk_table sdk client table")
      case (Inl e)
      with Pair \<open>r = Inr client\<close> t0 show ?thesis
        by (simp add: supabase_db_query_def db_query_body_def)
    next
      case b: (Inr builder)
      from assms Pair \<open>r = Inr client\<close> t0 b show ?thesis
        by (cases payload; cases query_filter)
          (auto simp add: supabase_db_query_def db_query_body_def ret_def)
    qed
  qed
qed

text \<open>
  C4. Once the client handle and the table builder are there, for every table:
  insert with a missing or empty payload returns
  \<^verbatim>\<open>{"error": "payload is required for insert action"}\<close>; update checks the payload
  first (whatever the filter is) and then the filter, with the error strings of lines 82
  and 84; delete with a missing or empty filter returns
  \<^verbatim>\<open>{"error": "query_filter is required for delete action"}\<close>. In each case the only
  events are the construction of the client and of the builder: \<^verbatim>\<open>execute\<close> is not called
  (lemma \<open>validation_events\<close> shows that also when the client cannot be built).
\<close>

theorem missing_fields_are_rejected:
  assumes "get_supabase_client sdk credentials env = (t0, Inr client)"
    and "sdk_table sdk client table = Inr builder"
  shows "(not_payload payload \<longrightarrow>
            supabase_db_query sdk credentials env table ''insert'' query_filter payload =
              (t0 @ [TableCall table],
               Inr [(''error'', PStr ''payload is required for insert action'')]))
       \<and> (not_payload payload \<longrightarrow>
            supabase_db_query sdk credentials env table ''update'' query_filter payload =
              (t0 @ [TableCall table],
               Inr [(''error'', PStr ''payload is required for update action'')]))
       \<and> (\<not> not_payload payload \<and> not_filter query_filter \<longrightarrow>
            supabase_db_query sdk credentials env table ''update'' query_filter payload =
              (t0 @ [TableCall table],
               Inr [(''error'', PStr ''query_filter is required for update action'')]))
       \<and> (not_filter query_filter \<longrightarrow>
            supabase_db_query sdk credentials env table ''delete'' query_filter payload =
              (t0 @ [TableCall table],
               Inr [(''error'', PStr ''query_filter is required for delete action'')]))
       \<and> ExecuteCall \<notin> set t0"
proof -
  have "ExecuteCall \<notin> set t0"
    using execute_not_in_client [of sdk credentials env] assms(1) by simp
  moreover have "not_payload payload \<Longrightarrow>
            supabase_db_query sdk credentials env table ''insert'' query_filter payload =
              (t0 @ [TableCall table],
               Inr [(''error'', PStr ''payload is required for insert action'')])"
    using assms by (cases payload)
      (simp_all add: supabase_db_query_def db_query_body_def ret_def error_dict_def)
  moreover have "not_payload payload \<Longrightarrow>
            supabase_db_query sdk credentials env table ''update'' query_filter payload =
              (t0 @ [TableCall table],
               Inr [(''error'', PStr ''payload is required for update action'')])"
    using assms by (cases payload)
      (simp_all add: supabase_db_query_def db_query_body_def ret_def error_dict_def)
  moreover have "\<not> not_payload payload \<Longrightarrow> not_filter query_filter \<Longrightarrow>
            supabase_db_query sdk credentials env table ''update'' query_filter payload =
              (t0 @ [TableCall table],
               Inr [(''error'', PStr ''query_filter is required for update action'')])"
    using assms by (cases payload; cases query_filter)
      (simp_all add: supabase_db_query_def db_query_body_def ret_def error_dict_def)
  moreover have "not_filter query_filter \<Longrightarrow>
            supabase_db_query sdk credentials env table ''delete'' query_filter payload =
              (t0 @ [TableCall table],
               Inr [(''error'', PStr ''query_filter is required for delete action'')])"
    using assms by (cases query_filter)
      (simp_all add: supabase_db_query_def db_query_body_def ret_def error_dict_def)
  ultimately show ?thesis by blast
qed

theorem missing_fields_are_rejected_witness:
  "supabase_db_query demo_sdk None demo_env ''users'' ''insert'' None (Some (Records [])) =
     ([CreateClient ''https://env.supabase.co'' ''env-key'', TableCall ''users''],
      Inr [(''error'', PStr ''payload is required for insert action'')])
   \<and> supabase_db_query demo_sdk None demo_env ''users'' ''update'' None (Some (Records [])) =
     ([CreateClient ''https://env.supabase.co'' ''env-key'', TableCall ''users''],
      Inr [(''error'', PStr ''payload is required for update action'')])
   \<and> supabase_db_query demo_sdk None demo_env ''users'' ''update'' (Some [])
        (Some (Record [(''name'', PStr ''New'')])) =
     ([CreateClient ''https://env.supabase.co'' ''env-key'', TableCall ''users''],
      Inr [(''error'', PStr ''query_filter is required for update action'')])
   \<and> supabase_db_query demo_sdk None demo_env ''users'' ''delete'' None None =
     ([CreateClient ''https://env.supabase.co'' ''env-key'', TableCall ''users''],
      Inr [(''error'', PStr ''query_filter is required for delete action'')])"
  using
    missing_fields_are_rejected [OF demo_client demo_table, where payload = "Some (Records [])"
      and query_filter = None]
    missing_fields_are_rejected [OF demo_client demo_table,
      where payload = "Some (Record [(''name'', PStr ''New'')])" and query_filter = "Some []"]
    missing_fields_are_rejected [OF demo_client demo_table, where payload = None
      and query_filter = None]
  by simp

section \<open>Select, filters and counts\<close>





section \<open>Absent attributes and arguments\<close>

text \<open>
  C9. If the object that \<^verbatim>\<open>list_users()\<close> returns has no \<^verbatim>\<open>users\<close> attribute, the tool
  returns \<^verbatim>\<open>{success: true, data: [], count: 0}\<close>, and logs nothing.
\<close>

theorem no_users_attribute_gives_empty_list:
  assumes "get_supabase_client sdk credentials env = (t0, Inr client)"
    and "sdk_list_users sdk client = Inr result"
    and "resp_users result = None"
  shows "supabase_auth_list_users sdk credentials env =
           (t0 @ [ListUsersCall],
            Inr [(''success'', PBool True), (''data'', PList []), (''count'', PInt 0)])"
  using assms
  by (simp add: supabase_auth_list_users_def auth_list_users_body_def ret_def list_result_def)

theorem no_users_attribute_gives_empty_list_witness:
  "supabase_auth_list_users sdk_without_users None demo_env =
     ([CreateClient ''https://env.supabase.co'' ''env-key'', ListUsersCall],
      Inr [(''success'', PBool True), (''data'', PList []), (''count'', PInt 0)])"
  using no_users_attribute_gives_empty_list [OF without_users_client without_users_response]
  by simp

lemma select_without_filter_events:
  "EqCall k v \<notin> set (fst (supabase_db_query sdk credentials env table ''select'' None payload))"
proof (cases "get_supabase_client sdk credentials env")
  case (Pair t0 r)
  have t0: "EqCall k v \<notin> set t0"
    using eq_not_in_client [of k v sdk credentials env] Pair by simp
  show ?thesis
  proof (cases r)
    case (Inl e)
    with Pair t0 show ?thesis by (simp add: supabase_db_query_def db_query_body_def)
  next
    case client: (Inr client)
    show ?thesis
    proof (cases "sdk_table sdk client table")
      case (Inl e)
      with Pair client t0 show ?thesis by (simp add: supabase_db_query_def db_query_body_def)
    next
      case b: (Inr builder)
      show ?thesis
      proof (cases "sdk_select sdk builder ''*''")
        case (Inl e)
        with Pair client b t0 show ?thesis
          by (simp add: supabase_db_query_def db_query_body_def)
      next
        case (Inr req)
        with Pair client b t0 show ?thesis
          by (cases "sdk_execute sdk req")
            (simp_all add: supabase_db_query_def db_query_body_def ret_def)
      qed
    qed
  qed
qed

text \<open>
  C10. For every backend, credentials, table and payload, select with the empty mapping as
  filter is the same run (same events, same result) as select with no filter, and no
  equality condition is applied; for insert and update, an empty mapping and an empty
  sequence as payload give the same run as a missing payload.
\<close>

theorem empty_and_missing_arguments_agree:
  "supabase_db_query sdk credentials env table ''select'' (Some []) payload =
     supabase_db_query sdk credentials env table ''select'' None payload
   \<and> EqCall k v \<notin>
       set (fst (supabase_db_query sdk credentials env table ''select'' None payload))
   \<and> supabase_db_query sdk credentials env table ''insert'' query_filter (Some (Record [])) =
     supabase_db_query sdk credentials env table ''insert'' query_filter None
   \<and> supabase_db_query sdk credentials env table ''insert'' query_filter (Some (Records [])) =
     supabase_db_query sdk credentials env table ''insert'' query_filter None
   \<and> supabase_db_query sdk credentials env table ''update'' query_filter (Some (Record [])) =
     supabase_db_query sdk credentials env table ''update'' query_filter None
   \<and> supabase_db_query sdk credentials env table ''update'' query_filter (Some (Records [])) =
     supabase_db_query sdk credentials env table ''update'' query_filter None"
proof (intro conjI)
  show "EqCall k v \<notin>
       set (fst (supabase_db_query sdk credentials env table ''select'' None payload))"
    by (rule select_without_filter_events)
qed (simp_all add: supabase_db_query_def db_query_body_def)

theorem empty_and_missing_arguments_agree_witness:
  "supabase_db_query demo_sdk None demo_env ''users'' ''select'' (Some []) None =
     supabase_db_query demo_sdk None demo_env ''users'' ''select'' None None
   \<and> supabase_db_query demo_sdk None demo_env ''users'' ''insert'' None (Some (Record [])) =
     supabase_db_query demo_sdk None demo_env ''users'' ''insert'' None None
   \<and> supabase_db_query demo_sdk None demo_env ''users'' ''update'' None (Some (Records [])) =
     supabase_db_query demo_sdk None demo_env ''users'' ''update'' None None"
  using empty_and_missing_arguments_agree [of demo_sdk None demo_env "''users''" None
      "''id''" "PInt 1" None]
  by simp

section \<open>The order of the credential lookups\<close>

text \<open>
  What the resolver does once the URL lookup has returned: a key lookup that is not found
  leaves the URL retrieved and sends only the key to the environment; when both lookups
  return, each value that is empty or \<^verbatim>\<open>None\<close> is replaced by its environment variable,
  so a non-empty value retrieved from the store takes precedence over the environment.
\<close>

lemma store_values_after_url_lookup:
  "(get ''SUPABASE_URL'' = Inr url \<and> get ''SUPABASE_SERVICE_ROLE_KEY'' = Inl (KeyError m) \<longrightarrow>
      credential_pair (Some get) env =
        Inr (if not_str url then env ''SUPABASE_URL'' else url,
             env ''SUPABASE_SERVICE_ROLE_KEY''))
   \<and> (get ''SUPABASE_URL'' = Inr url \<and> get ''SUPABASE_SERVICE_ROLE_KEY'' = Inr key \<longrightarrow>
      credential_pair (Some get) env =
        Inr (if not_str url then env ''SUPABASE_URL'' else url,
             if not_str key then env ''SUPABASE_SERVICE_ROLE_KEY'' else key))
   \<and> (get ''SUPABASE_URL'' = Inr (Some u) \<and> u \<noteq> [] \<and>
      get ''SUPABASE_SERVICE_ROLE_KEY'' = Inr (Some k) \<and> k \<noteq> [] \<longrightarrow>
      credential_pair (Some get) env = Inr (Some u, Some k))"
  by (simp add: credential_pair_def lookup_store_def)

text \<open>
  C6 fails on the code. The claim: a not-found failure of either lookup makes that single
  value absent without affecting the other lookup; if the URL lookup fails and the key
  lookup would succeed, the key still comes from the credential store. The code, at a
  store that holds the key \<^verbatim>\<open>store-key\<close> and raises \<^verbatim>\<open>KeyError\<close> for the URL:
  \<^item> with both variables in the environment, the client is built with the environment's
    key, not the store's;
  \<^item> with only the URL in the environment, the resolver raises its \<^verbatim>\<open>ValueError\<close>, although
    the store holds the key and the environment the URL.
  The mirrored configuration (a store that holds the URL and raises \<^verbatim>\<open>KeyError\<close> for the
  key, with only the key in the environment) builds the client from the store's URL and
  the environment's key: lines 24 to 27 fall back value by value, and the key lookup of
  line 20 is lost only because it shares the \<^verbatim>\<open>try\<close> of line 18 with the URL lookup.
\<close>

theorem key_lookup_skipped_after_url_failure:
  "store_without_url ''SUPABASE_URL'' = Inl (KeyError ''SUPABASE_URL'')
   \<and> store_without_url ''SUPABASE_SERVICE_ROLE_KEY'' = Inr (Some ''store-key'')
   \<and> credential_pair (Some store_without_url) demo_env =
       Inr (Some ''https://env.supabase.co'', Some ''env-key'')
   \<and> get_supabase_client demo_sdk (Some store_without_url) demo_env =
       ([CreateClient ''https://env.supabase.co'' ''env-key''],
        Inr (''https://env.supabase.co'', ''env-key''))
   \<and> credential_pair (Some store_without_url) url_only_env =
       Inr (Some ''https://env.supabase.co'', None)
   \<and> get_supabase_client demo_sdk (Some store_without_url) url_only_env =
       ([], Inl (ValueError missing_credentials))
   \<and> get_supabase_client demo_sdk (Some store_without_key) key_only_env =
       ([CreateClient ''https://store.supabase.co'' ''env-key''],
        Inr (''https://store.supabase.co'', ''env-key''))"
  by (simp add: get_supabase_client_def credential_pair_def lookup_store_def
      store_without_url_def store_without_key_def demo_env_def url_only_env_def
      key_only_env_def demo_sdk_simps call_def raise_def)

section \<open>The projection of user records\<close>

lemma project_users_all:
  "\<forall>u\<in>set us. map_of (obj_attrs u) ''id'' \<noteq> None \<Longrightarrow>
   project_users acc us =
     Inr (acc @ map (\<lambda>u. [(''id'', getattr_default u ''id''),
                          (''email'', getattr_default u ''email''),
                          (''created_at'', getattr_default u ''created_at''),
                          (''last_sign_in_at'', getattr_default u ''last_sign_in_at'')]) us)"
  by (induction us arbitrary: acc)
    (auto simp add: project_user_def getattr_def getattr_default_def)

text \<open>
  When every user returned has an \<^verbatim>\<open>id\<close>, each is projected to exactly the fields
  \<^verbatim>\<open>id\<close>, \<^verbatim>\<open>email\<close>, \<^verbatim>\<open>created_at\<close> and \<^verbatim>\<open>last_sign_in_at\<close>, in this order, and a field
  read with \<^verbatim>\<open>getattr(u, name, None)\<close> is \<^verbatim>\<open>None\<close> when the user omits it and the user's
  value otherwise.
\<close>

lemma users_with_id_are_projected:
  assumes "get_supabase_client sdk credentials env = (t0, Inr client)"
    and "sdk_list_users sdk client = Inr result"
    and "resp_users result = Some us"
    and "\<forall>u\<in>set us. map_of (obj_attrs u) ''id'' \<noteq> None"
  shows "supabase_auth_list_users sdk credentials env =
           (t0 @ [ListUsersCall],
            Inr (list_result
              (map (\<lambda>u. [(''id'', getattr_default u ''id''),
                         (''email'', getattr_default u ''email''),
                         (''created_at'', getattr_default u ''created_at''),
                         (''last_sign_in_at'', getattr_default u ''last_sign_in_at'')])
                 us)))"
  using project_users_all [OF assms(4), of "[]"] assms(1-3)
  by (simp add: supabase_auth_list_users_def auth_list_users_body_def ret_def)

lemma getattr_default_cases:
  "(map_of (obj_attrs u) name = None \<longrightarrow> getattr_default u name = PNone)
   \<and> (map_of (obj_attrs u) name = Some v \<longrightarrow> getattr_default u name = v)"
  by (simp add: getattr_default_def)

text \<open>
  C7 fails on the code for \<^verbatim>\<open>id\<close>. The claim: every one of the four fields, \<^verbatim>\<open>id\<close>
  included, maps to a null marker, not to an error result, when the source object omits
  it. The code reads \<^verbatim>\<open>u.id\<close> (line 127) where lines 128 to 130 read the other three
  fields with \<^verbatim>\<open>getattr(u, name, None)\<close>: when the identity subsystem returns a user with
  an \<^verbatim>\<open>id\<close> followed by a user with an e-mail address and no \<^verbatim>\<open>id\<close>, the tool returns the
  error dictionary of its handler, and the record of the first user is lost with it. The
  bucket projection reads \<^verbatim>\<open>id\<close> with \<^verbatim>\<open>getattr(b, "id", None)\<close> (line 153): a bucket
  without \<^verbatim>\<open>id\<close> is listed with \<^verbatim>\<open>id: None\<close>.
\<close>

theorem user_without_id_is_an_error:
  "supabase_auth_list_users sdk_user_without_id None demo_env =
     ([CreateClient ''https://env.supabase.co'' ''env-key'', ListUsersCall,
       LogException ''Supabase Auth List Users failed''],
      Inr [(''error'',
            PStr (''Failed to list auth users: '' @ [CHR 0x27] @ ''User'' @ [CHR 0x27]
                    @ '' object has no attribute '' @ [CHR 0x27] @ ''id'' @ [CHR 0x27]))])
   \<and> supabase_storage_list_buckets sdk_bucket_without_id None demo_env =
     ([CreateClient ''https://env.supabase.co'' ''env-key'', ListBucketsCall],
      Inr [(''success'', PBool True),
           (''data'',
            PList [PDict [(''id'', PStr ''bucket-1''), (''name'', PStr ''Public Assets''),
                          (''public'', PNone), (''created_at'', PNone)],
                   PDict [(''id'', PNone), (''name'', PStr ''Private Assets''),
                          (''public'', PNone), (''created_at'', PNone)]]),
           (''count'', PInt 2)])"
  by (simp add: supabase_auth_list_users_def auth_list_users_body_def
      supabase_storage_list_buckets_def storage_list_buckets_body_def get_supabase_client_def
      credential_pair_def lookup_store_def demo_env_def sdk_user_without_id_def
      sdk_bucket_without_id_def demo_sdk_def call_def ret_def project_user_def getattr_def
      getattr_default_def demo_user_def user_without_id_def demo_bucket_def
      bucket_without_id_def project_bucket_def list_result_def error_dict_def)

section \<open>Every result has one shape\<close>

lemma error_dict_shape: "error_shaped (error_dict m) \<and> \<not> success_shaped (error_dict m)"
  by (simp add: error_shaped_def success_shaped_def error_dict_def)

lemma list_result_shape: "success_shaped (list_result ds) \<and> \<not> error_shaped (list_result ds)"
  by (simp add: error_shaped_def success_shaped_def list_result_def)

lemma db_query_body_returns:
  assumes "db_query_body sdk credentials env table action query_filter payload = (t, Inr d)"
  shows "(\<exists>m. d = error_dict m)
       \<or> (\<exists>data. d = [(''success'', PBool True), (''data'', PList data),
                       (''count'', PInt (int (length data)))])
       \<or> (\<exists>data. d = [(''success'', PBool True), (''data'', PList data)])"
proof -
  obtain t0 r0 where c: "get_supabase_client sdk credentials env = (t0, r0)"
    by (cases "get_supabase_client sdk credentials env")
  show ?thesis
  proof (cases r0)
    case (Inl e)
    with c assms show ?thesis by (simp add: db_query_body_def)
  next
    case client: (Inr client)
    show ?thesis
    proof (cases "sdk_table sdk client table")
      case (Inl e)
      with c client assms show ?thesis by (simp add: db_query_body_def)
    next
      case b: (Inr builder)
      from c client b assms show ?thesis
        by (auto simp add: db_query_body_def ret_def bind_run_def call_def
            split: option.splits if_splits sum.splits prod.splits)
    qed
  qed
qed

lemma db_query_shape:
  "\<exists>d. snd (supabase_db_query sdk credentials env table action query_filter payload) = Inr d
       \<and> (success_shaped d \<or> error_shaped d) \<and> \<not> (success_shaped d \<and> error_shaped d)"
proof (cases "db_query_body sdk credentials env table action query_filter payload")
  case (Pair t r)
  show ?thesis
  proof (cases r)
    case (Inl e)
    with Pair show ?thesis
      using error_dict_shape by (simp add: supabase_db_query_def)
  next
    case (Inr d)
    from db_query_body_returns [of sdk credentials env table action query_filter payload t d]
      Pair Inr
    have "(success_shaped d \<or> error_shaped d) \<and> \<not> (success_shaped d \<and> error_shaped d)"
      by (auto simp add: error_shaped_def success_shaped_def error_dict_def)
    with Pair Inr show ?thesis by (simp add: supabase_db_query_def)
  qed
qed

lemma auth_list_users_body_returns:
  assumes "auth_list_users_body sdk credentials env = (t, Inr d)"
  shows "\<exists>ds. d = list_result ds"
  using assms
  by (auto simp add: auth_list_users_body_def bind_run_def ret_def call_def
      split: option.splits sum.splits prod.splits)

lemma storage_list_buckets_body_returns:
  assumes "storage_list_buckets_body sdk credentials env = (t, Inr d)"
  shows "\<exists>ds. d = list_result ds"
  using assms
  by (auto simp add: storage_list_buckets_body_def bind_run_def ret_def call_def
      split: option.splits sum.splits prod.splits)

lemma auth_list_users_shape:
  "\<exists>d. snd (supabase_auth_list_users sdk credentials env) = Inr d
       \<and> (success_shaped d \<or> error_shaped d) \<and> \<not> (success_shaped d \<and> error_shaped d)"
proof (cases "auth_list_users_body sdk credentials env")
  case (Pair t r)
  show ?thesis
  proof (cases r)
    case (Inl e)
    with Pair show ?thesis
      using error_dict_shape by (simp add: supabase_auth_list_users_def)
  next
    case (Inr d)
    with Pair auth_list_users_body_returns [of sdk credentials env t d] list_result_shape
    show ?thesis by (auto simp add: supabase_auth_list_users_def)
  qed
qed

lemma storage_list_buckets_shape:
  "\<exists>d. snd (supabase_storage_list_buckets sdk credentials env) = Inr d
       \<and> (success_shaped d \<or> error_shaped d) \<and> \<not> (success_shaped d \<and> error_shaped d)"
proof (cases "storage_list_buckets_body sdk credentials env")
  case (Pair t r)
  show ?thesis
  proof (cases r)
    case (Inl e)
    with Pair show ?thesis
      using error_dict_shape by (simp add: supabase_storage_list_buckets_def)
  next
    case (Inr d)
    with Pair storage_list_buckets_body_returns [of sdk credentials env t d] list_result_shape
    show ?thesis by (auto simp add: supabase_storage_list_buckets_def)
  qed
qed

text \<open>
  C8. For every invocation of each of the three tools, whatever the backend SDK returns or
  raises and whatever the credentials are, the tool returns a dictionary (it does not
  raise), and this dictionary is success-shaped or error-shaped and not both.
\<close>

theorem every_result_has_one_shape:
  "(\<exists>d. snd (supabase_db_query sdk credentials env table action query_filter payload) = Inr d
       \<and> (success_shaped d \<or> error_shaped d) \<and> \<not> (success_shaped d \<and> error_shaped d))
   \<and> (\<exists>d. snd (supabase_auth_list_users sdk credentials env) = Inr d
       \<and> (success_shaped d \<or> error_shaped d) \<and> \<not> (success_shaped d \<and> error_shaped d))
   \<and> (\<exists>d. snd (supabase_storage_list_buckets sdk credentials env) = Inr d
       \<and> (success_shaped d \<or> error_shaped d) \<and> \<not> (success_shaped d \<and> error_shaped d))"
  using db_query_shape auth_list_users_shape storage_list_buckets_shape by blast

theorem every_result_has_one_shape_witness:
  "snd (supabase_db_query demo_sdk None demo_env ''users'' ''select'' None None) =
     Inr [(''success'', PBool True),
          (''data'', PList [PDict [(''id'', PInt 1), (''name'', PStr ''Test'')]]),
          (''count'', PInt 1)]
   \<and> success_shaped [(''success'', PBool True),
          (''data'', PList [PDict [(''id'', PInt 1), (''name'', PStr ''Test'')]]),
          (''count'', PInt 1)]
   \<and> \<not> error_shaped [(''success'', PBool True),
          (''data'', PList [PDict [(''id'', PInt 1), (''name'', PStr ''Test'')]]),
          (''count'', PInt 1)]
   \<and> snd (supabase_auth_list_users sdk_forbidden None demo_env) =
     Inr [(''error'', PStr ''Failed to list auth users: not authorized'')]
   \<and> error_shaped [(''error'', PStr ''Failed to list auth users: not authorized'')]
   \<and> \<not> success_shaped [(''error'', PStr ''Failed to list auth users: not authorized'')]"
proof -
  have q: "snd (supabase_db_query demo_sdk None demo_env ''users'' ''select'' None None) =
      Inr [(''success'', PBool True),
       (''data'', PList [PDict [(''id'', PInt 1), (''name'', PStr ''Test'')]]),
       (''count'', PInt 1)]"
    by (simp add: supabase_db_query_def db_query_body_def demo_client demo_table
        demo_sdk_simps ret_def demo_rows_def)
  have a: "snd (supabase_auth_list_users sdk_forbidden None demo_env) =
      Inr [(''error'', PStr ''Failed to list auth users: not authorized'')]"
    by (simp add: supabase_auth_list_users_def forbidden_users_raises error_dict_def)
  from every_result_has_one_shape [of demo_sdk None demo_env "''users''" "''select''" None None]
    every_result_has_one_shape [of sdk_forbidden None demo_env "''users''" "''select''" None None]
    q a
  show ?thesis
    by (simp add: success_shaped_def error_shaped_def)
qed

end
